theory Spec2Isabelle
  imports Complex_Main
begin

chapter \<open>Definitions\<close>

section \<open>Sales auto-deduction rules (SalesAutoDeduction.tsx)\<close>

text \<open>
  The component keeps two pieces of React state: the list \<open>rules\<close> and the form
  \<open>newRule\<close>. A JavaScript \<open>number\<close> is modelled as a real; the only operation
  the handlers perform on it is the comparison \<open>> 0\<close>. The field \<open>id\<close> of the
  source is called \<open>rule_id\<close> here, because \<open>id\<close> is the identity function of HOL;
  \<open>name\<close> and \<open>description\<close> carry a prefix because other interfaces of the
  repository have fields of the same name.
\<close>

record SalesDeductionRule =
  rule_id :: string
  rule_name :: string
  percentage :: real
  active :: bool
  rule_description :: string

record NewRule =
  new_name :: string
  new_percentage :: real
  new_description :: string

record SalesState =
  rules :: "SalesDeductionRule list"
  newRule :: NewRule

text \<open>\<open>Number.prototype.toString\<close> on a non-negative integer: its decimal digits.\<close>

fun toString :: "nat \<Rightarrow> string" where
  "toString n = (if n < 10 then [''0123456789'' ! n]
                 else toString (n div 10) @ [''0123456789'' ! (n mod 10)])"

declare toString.simps [simp del]

text \<open>
  \<open>setRules(prevRules => prevRules.map(rule => rule.id === id ? {...rule, active:
  !rule.active} : rule))\<close>
\<close>

definition handleToggleRule :: "string \<Rightarrow> SalesState \<Rightarrow> SalesState" where
  "handleToggleRule i s =
     s\<lparr>rules := map (\<lambda>rule. if rule_id rule = i then rule\<lparr>active := \<not> active rule\<rparr> else rule)
                     (rules s)\<rparr>"

text \<open>
  \<open>handleAddRule\<close>; the argument \<open>now\<close> is the value of \<open>Date.now()\<close>. A string
  is truthy in JavaScript exactly when it is not empty.
\<close>

definition handleAddRule :: "nat \<Rightarrow> SalesState \<Rightarrow> SalesState" where
  "handleAddRule now s =
     (if new_name (newRule s) \<noteq> [] \<and> new_percentage (newRule s) > 0 then
        let rule = \<lparr>rule_id = toString now,
                    rule_name = new_name (newRule s),
                    percentage = new_percentage (newRule s),
                    active = False,
                    rule_description = new_description (newRule s)\<rparr>
        in s\<lparr>rules := rules s @ [rule],
             newRule := \<lparr>new_name = [], new_percentage = 0, new_description = []\<rparr>\<rparr>
      else s)"

text \<open>\<open>setRules(prevRules => prevRules.filter(rule => rule.id !== id))\<close>\<close>

definition handleDeleteRule :: "string \<Rightarrow> SalesState \<Rightarrow> SalesState" where
  "handleDeleteRule i s = s\<lparr>rules := filter (\<lambda>rule. rule_id rule \<noteq> i) (rules s)\<rparr>"

text \<open>The two rules the component starts with.\<close>

definition initial_sales_state :: SalesState where
  "initial_sales_state =
     \<lparr>rules =
        [\<lparr>rule_id = ''1'', rule_name = ''Daily Sales Deduction'', percentage = 5, active = True,
          rule_description = ''Automatically deduct 5% from daily sales for operational costs''\<rparr>,
         \<lparr>rule_id = ''2'', rule_name = ''Weekend Sales Deduction'', percentage = 3, active = False,
          rule_description = ''Deduct 3% from weekend sales for additional processing''\<rparr>],
      newRule = \<lparr>new_name = [], new_percentage = 0, new_description = []\<rparr>\<rparr>"


section \<open>Supplier API integrations (SupplierAPIIntegrations.tsx)\<close>

subsection \<open>Interfaces and component state\<close>

text \<open>
  The interfaces \<open>Supplier\<close>, \<open>Product\<close>, \<open>OrderItem\<close> and \<open>Order\<close> of the
  component. Fields called \<open>id\<close>, \<open>name\<close>, \<open>description\<close>, \<open>unit\<close>, \<open>notes\<close>,
  \<open>status\<close>, \<open>type\<close> in more than one interface carry a prefix here (\<open>notes\<close> is also
  a keyword of Isabelle, so the field of the order data is \<open>order_notes\<close>). Numbers are reals;
  \<open>NaN\<close> (what \<open>parseInt\<close> gives on an empty field) is not represented.
\<close>

record Supplier =
  sup_id :: string
  sup_name :: string
  sup_description :: string
  integration_type :: string
  features :: "string list"
  categories :: "string list"
  minimum_order :: real
  delivery_lead_time :: real
  required_config :: "string list"

record Product =
  catalog_product_id :: string
  product_name :: string
  product_description :: string
  price :: real
  product_unit :: string
  category :: string
  in_stock :: bool
  min_order_qty :: real
  lead_time_days :: real
  last_updated :: string

record OrderItem =
  product_id :: string
  item_name :: string
  quantity :: real
  item_unit :: string
  unit_price :: real
  item_notes :: string

record Order =
  order_id :: string
  order_supplier_id :: string
  order_status :: string
  total_amount :: real
  order_delivery_date :: string
  created_at :: string
  order_type :: string

record ConfigData =
  api_key :: string
  location_id :: string
  account_number :: string
  restaurant_id :: string

datatype OrderType = api | pdf | email

record OrderData =
  supplier_id :: string
  supplier_name :: string
  supplier_email :: string
  items :: "OrderItem list"
  delivery_address :: string
  delivery_date :: string
  contact_person :: string
  contact_phone :: string
  contact_email :: string
  order_notes :: string
  urgent :: bool

text \<open>The \<open>useState\<close> cells of the component, in the order of the source.\<close>

record IntegrationsState =
  suppliers :: "Supplier list"
  selectedSupplier :: string
  products :: "Product list"
  orders :: "Order list"
  loading :: bool
  error :: "string option"
  success :: "string option"
  showConfigDialog :: bool
  configSupplier :: string
  configData :: ConfigData
  showOrderDialog :: bool
  orderType :: OrderType
  orderData :: OrderData
  activeTab :: nat

definition empty_config :: ConfigData where
  "empty_config = \<lparr>api_key = [], location_id = [], account_number = [], restaurant_id = []\<rparr>"

definition empty_order :: OrderData where
  "empty_order =
     \<lparr>supplier_id = [], supplier_name = [], supplier_email = [], items = [],
      delivery_address = [], delivery_date = [], contact_person = [], contact_phone = [],
      contact_email = [], order_notes = [], urgent = False\<rparr>"

definition initial_state :: IntegrationsState where
  "initial_state =
     \<lparr>suppliers = [], selectedSupplier = [], products = [], orders = [], loading = False,
      error = None, success = None, showConfigDialog = False, configSupplier = [],
      configData = empty_config, showOrderDialog = False, orderType = api,
      orderData = empty_order, activeTab = 0\<rparr>"

subsection \<open>Requests and responses\<close>

text \<open>
  A JSON value, and a request as the component hands it to \<open>fetch\<close>: method, path below
  \<open>API_BASE_URL\<close>, and the fields of the object given to \<open>JSON.stringify\<close>, in
  the order the source lists them.
\<close>

datatype json =
    JString string
  | JNumber real
  | JBool bool
  | JArray "json list"
  | JObject "(string \<times> json) list"

record http_request =
  http_method :: string
  http_path :: string
  http_body :: "(string \<times> json) list option"

text \<open>
  What one \<open>await fetch(...)\<close> followed by \<open>await response.json()\<close> can give the
  handler: \<open>fetch\<close> rejects; \<open>response.ok\<close> with a body that parses to the data the
  handler reads; \<open>response.ok\<close> with a body on which \<open>json()\<close> rejects; a response
  that is not ok, with the \<open>detail\<close> field of its body when there is one; a response
  that is not ok and whose body does not parse.
\<close>

datatype 'd fetch_outcome =
    FetchThrows
  | RespOk 'd
  | RespOkBodyThrows
  | RespNotOk "string option"
  | RespNotOkBodyThrows

text \<open>\<open>errorData.detail || fallback\<close>: an absent or empty detail gives the fallback.\<close>

definition detail_or :: "string option \<Rightarrow> string \<Rightarrow> string" where
  "detail_or detail fallback =
     (case detail of None \<Rightarrow> fallback | Some d \<Rightarrow> if d = [] then fallback else d)"

definition API_PREFIX :: string where
  "API_PREFIX = ''/api/supplier-api-integrations''"

definition item_json :: "OrderItem \<Rightarrow> json" where
  "item_json it =
     JObject [(''product_id'', JString (product_id it)),
              (''name'', JString (item_name it)),
              (''quantity'', JNumber (quantity it)),
              (''unit'', JString (item_unit it)),
              (''unit_price'', JNumber (unit_price it)),
              (''notes'', JString (item_notes it))]"

subsection \<open>Handlers\<close>

text \<open>
  Every handler is modelled as one transition: the state when it is called, the outcome of
  its request, the state after its \<open>finally\<close> block. Handlers in flight at the same time
  are not modelled.
\<close>

text \<open>\<open>loadSuppliers\<close>; \<open>Object.values(data.suppliers)\<close> is the list in the outcome.\<close>

definition loadSuppliers :: "Supplier list fetch_outcome \<Rightarrow> IntegrationsState \<Rightarrow> IntegrationsState" where
  "loadSuppliers resp st =
     (case resp of
        RespOk data \<Rightarrow> st\<lparr>suppliers := data, loading := False\<rparr>
      | RespOkBodyThrows \<Rightarrow> st\<lparr>error := Some ''Error loading suppliers'', loading := False\<rparr>
      | FetchThrows \<Rightarrow> st\<lparr>error := Some ''Error loading suppliers'', loading := False\<rparr>
      | RespNotOk d \<Rightarrow> st\<lparr>error := Some ''Failed to load suppliers'', loading := False\<rparr>
      | RespNotOkBodyThrows \<Rightarrow> st\<lparr>error := Some ''Failed to load suppliers'', loading := False\<rparr>)"

text \<open>\<open>loadOrders\<close> sets the orders on an ok response and only logs otherwise.\<close>

definition loadOrders :: "Order list fetch_outcome \<Rightarrow> IntegrationsState \<Rightarrow> IntegrationsState" where
  "loadOrders resp st = (case resp of RespOk data \<Rightarrow> st\<lparr>orders := data\<rparr> | _ \<Rightarrow> st)"

definition loadOrders_request :: http_request where
  "loadOrders_request =
     \<lparr>http_method = ''GET'', http_path = API_PREFIX @ ''/orders'', http_body = None\<rparr>"

definition resetConfigData :: "IntegrationsState \<Rightarrow> IntegrationsState" where
  "resetConfigData st = st\<lparr>configData := empty_config, configSupplier := []\<rparr>"

definition resetOrderData :: "IntegrationsState \<Rightarrow> IntegrationsState" where
  "resetOrderData st = st\<lparr>orderData := empty_order\<rparr>"

text \<open>\<open>configureSupplier\<close>: the body is \<open>{supplier_id: configSupplier, ...configData}\<close>.\<close>

definition configureSupplier_request :: "IntegrationsState \<Rightarrow> http_request" where
  "configureSupplier_request st =
     \<lparr>http_method = ''POST'', http_path = API_PREFIX @ ''/configure'',
      http_body = Some [(''supplier_id'', JString (configSupplier st)),
                        (''api_key'', JString (api_key (configData st))),
                        (''location_id'', JString (location_id (configData st))),
                        (''account_number'', JString (account_number (configData st))),
                        (''restaurant_id'', JString (restaurant_id (configData st)))]\<rparr>"

text \<open>The outcome carries \<open>data.supplier_id\<close> of an ok response.\<close>

definition configureSupplier :: "string fetch_outcome \<Rightarrow> IntegrationsState \<Rightarrow> IntegrationsState" where
  "configureSupplier resp st =
     (case resp of
        RespOk data_supplier_id \<Rightarrow>
          (resetConfigData
             (st\<lparr>success := Some (''Integration configured successfully for '' @ data_supplier_id),
                 showConfigDialog := False\<rparr>))\<lparr>loading := False\<rparr>
      | RespNotOk detail \<Rightarrow>
          st\<lparr>error := Some (detail_or detail ''Failed to configure integration''), loading := False\<rparr>
      | _ \<Rightarrow> st\<lparr>error := Some ''Error configuring integration'', loading := False\<rparr>)"

text \<open>
  \<open>getProducts(supplierId, category?)\<close>: \<open>category\<close> is appended as a query parameter
  when it is given and not empty. The response body is read only when the response is ok.
\<close>

definition getProducts_request :: "string \<Rightarrow> string option \<Rightarrow> http_request" where
  "getProducts_request supplierId categ =
     \<lparr>http_method = ''GET'',
      http_path = API_PREFIX @ ''/products/'' @ supplierId @
         (case categ of None \<Rightarrow> [] | Some c \<Rightarrow> if c = [] then [] else ''?category='' @ c),
      http_body = None\<rparr>"

definition getProducts :: "string \<Rightarrow> Product list fetch_outcome \<Rightarrow> IntegrationsState \<Rightarrow> IntegrationsState" where
  "getProducts supplierId resp st =
     (case resp of
        RespOk data_products \<Rightarrow>
          st\<lparr>products := data_products, selectedSupplier := supplierId, loading := False\<rparr>
      | RespNotOk d \<Rightarrow> st\<lparr>error := Some ''Failed to load products'', loading := False\<rparr>
      | RespNotOkBodyThrows \<Rightarrow> st\<lparr>error := Some ''Failed to load products'', loading := False\<rparr>
      | RespOkBodyThrows \<Rightarrow> st\<lparr>error := Some ''Error loading products'', loading := False\<rparr>
      | FetchThrows \<Rightarrow> st\<lparr>error := Some ''Error loading products'', loading := False\<rparr>)"

text \<open>
  \<open>placeOrder\<close>: the endpoint and the request data chosen by the \<open>if / else if\<close>
  chain on \<open>orderType\<close>; the chain has no final \<open>else\<close>, which leaves the empty
  endpoint and the empty object.
\<close>

definition order_common_fields :: "OrderData \<Rightarrow> (string \<times> json) list" where
  "order_common_fields od =
     [(''items'', JArray (map item_json (items od))),
      (''delivery_address'', JString (delivery_address od)),
      (''delivery_date'', JString (delivery_date od)),
      (''contact_person'', JString (contact_person od)),
      (''contact_phone'', JString (contact_phone od)),
      (''contact_email'', JString (contact_email od)),
      (''notes'', JString (order_notes od)),
      (''urgent'', JBool (urgent od))]"

definition placeOrder_endpoint :: "OrderType \<Rightarrow> string" where
  "placeOrder_endpoint t =
     (if t = api then ''/order''
      else if t = pdf then ''/order-sheet/pdf''
      else if t = email then ''/order-sheet/email''
      else [])"

definition placeOrder_requestData :: "OrderType \<Rightarrow> OrderData \<Rightarrow> (string \<times> json) list" where
  "placeOrder_requestData t od =
     (if t = api then
        (''supplier_id'', JString (supplier_id od)) # order_common_fields od
      else if t = pdf then
        (''supplier_name'', JString (supplier_name od)) # order_common_fields od
      else if t = email then
        (''supplier_name'', JString (supplier_name od)) #
        (''supplier_email'', JString (supplier_email od)) # order_common_fields od
      else [])"

definition placeOrder_request :: "IntegrationsState \<Rightarrow> http_request" where
  "placeOrder_request st =
     \<lparr>http_method = ''POST'',
      http_path = API_PREFIX @ placeOrder_endpoint (orderType st),
      http_body = Some (placeOrder_requestData (orderType st) (orderData st))\<rparr>"

text \<open>
  The first outcome is that of the order request and carries \<open>data.order_id\<close>; the second
  is that of the \<open>loadOrders\<close> call made after a successful placement.
\<close>

definition placeOrder :: "string fetch_outcome \<Rightarrow> Order list fetch_outcome \<Rightarrow> IntegrationsState \<Rightarrow> IntegrationsState" where
  "placeOrder resp orders_resp st =
     (case resp of
        RespOk data_order_id \<Rightarrow>
          loadOrders orders_resp
            ((resetOrderData
               (st\<lparr>success := Some (''Order placed successfully! Order ID: '' @ data_order_id),
                   showOrderDialog := False\<rparr>))\<lparr>loading := False\<rparr>)
      | RespNotOk detail \<Rightarrow>
          st\<lparr>error := Some (detail_or detail ''Failed to place order''), loading := False\<rparr>
      | _ \<Rightarrow> st\<lparr>error := Some ''Error placing order'', loading := False\<rparr>)"

definition testConnection_request :: "string \<Rightarrow> http_request" where
  "testConnection_request supplierId =
     \<lparr>http_method = ''GET'', http_path = API_PREFIX @ ''/test-connection/'' @ supplierId,
      http_body = None\<rparr>"

definition testConnection :: "string \<Rightarrow> unit fetch_outcome \<Rightarrow> IntegrationsState \<Rightarrow> IntegrationsState" where
  "testConnection supplierId resp st =
     (case resp of
        RespOk data \<Rightarrow>
          st\<lparr>success := Some (''Connection test successful for '' @ supplierId), loading := False\<rparr>
      | RespNotOk detail \<Rightarrow>
          st\<lparr>error := Some (detail_or detail ''Connection test failed''), loading := False\<rparr>
      | _ \<Rightarrow> st\<lparr>error := Some ''Error testing connection'', loading := False\<rparr>)"

text \<open>\<open>addOrderItem\<close>, \<open>updateOrderItem\<close>, \<open>removeOrderItem\<close>.\<close>

definition addOrderItem :: "IntegrationsState \<Rightarrow> IntegrationsState" where
  "addOrderItem st =
     st\<lparr>orderData := (orderData st)\<lparr>items := items (orderData st) @
        [\<lparr>product_id = [], item_name = [], quantity = 1, item_unit = ''kg'', unit_price = 0,
          item_notes = []\<rparr>]\<rparr>\<rparr>"

text \<open>The four fields the order dialog edits, with the value the input handler passes.\<close>

datatype item_edit =
    EditName string
  | EditQuantity real
  | EditUnit string
  | EditUnitPrice real

fun apply_item_edit :: "item_edit \<Rightarrow> OrderItem \<Rightarrow> OrderItem" where
  "apply_item_edit (EditName v) it = it\<lparr>item_name := v\<rparr>"
| "apply_item_edit (EditQuantity v) it = it\<lparr>quantity := v\<rparr>"
| "apply_item_edit (EditUnit v) it = it\<lparr>item_unit := v\<rparr>"
| "apply_item_edit (EditUnitPrice v) it = it\<lparr>unit_price := v\<rparr>"

text \<open>\<open>items.map((item, i) => i === index ? {...item, [field]: value} : item)\<close>\<close>

definition updateOrderItem :: "nat \<Rightarrow> item_edit \<Rightarrow> IntegrationsState \<Rightarrow> IntegrationsState" where
  "updateOrderItem index e st =
     st\<lparr>orderData := (orderData st)\<lparr>items :=
        map (\<lambda>(i, it). if i = index then apply_item_edit e it else it)
            (enumerate 0 (items (orderData st)))\<rparr>\<rparr>"

text \<open>\<open>items.filter((_, i) => i !== index)\<close>\<close>

definition removeOrderItem :: "nat \<Rightarrow> IntegrationsState \<Rightarrow> IntegrationsState" where
  "removeOrderItem index st =
     st\<lparr>orderData := (orderData st)\<lparr>items :=
        map snd (filter (\<lambda>(i, it). i \<noteq> index) (enumerate 0 (items (orderData st))))\<rparr>\<rparr>"


subsection \<open>The rendered controls\<close>

text \<open>
  What the user can do in a state, read off the JSX: a control that is not rendered, or is
  rendered \<open>disabled\<close>, gives no transition (\<open>None\<close>). A control outside an open
  dialog cannot be reached while the dialog is open (the dialogs are modal). Events that
  start a request carry the outcome of that request.
\<close>

datatype config_field = FApiKey | FLocationId | FAccountNumber | FRestaurantId

datatype order_field =
    FSupplierName
  | FSupplierEmail
  | FDeliveryAddress
  | FDeliveryDate
  | FContactPerson
  | FContactPhone
  | FContactEmail
  | FNotes

datatype ui_event =
    Mount "Supplier list fetch_outcome" "Order list fetch_outcome"
  | DismissSuccess
  | DismissError
  | SelectTab nat
  | ClickConfigure string
  | ClickTest string "unit fetch_outcome"
  | ClickViewProducts string "Product list fetch_outcome"
  | ClickProductsPlaceOrder
  | SelectConfigSupplier string
  | EditConfig config_field string
  | ClickConfigureIntegration "string fetch_outcome"
  | ClickDialogConfigure "string fetch_outcome"
  | CloseConfigDialog
  | ChooseOrderType OrderType
  | ChooseOrderSupplier string
  | EditOrder order_field string
  | ClickAddItem
  | EditItem nat item_edit
  | ClickRemoveItem nat
  | ClickPlaceOrder "string fetch_outcome" "Order list fetch_outcome"
  | CloseOrderDialog

definition no_dialog :: "IntegrationsState \<Rightarrow> bool" where
  "no_dialog st = (\<not> showConfigDialog st \<and> \<not> showOrderDialog st)"

text \<open>A supplier card of the first tab: \<open>suppliers.map((supplier) => ...)\<close>.\<close>

definition listed :: "IntegrationsState \<Rightarrow> string \<Rightarrow> bool" where
  "listed st sid = (\<exists>s \<in> set (suppliers st). sup_id s = sid)"

text \<open>
  The guard \<open>supplier.integration_type === 'api'\<close> of the Test button, and the filter
  \<open>suppliers.filter(s => s.integration_type === 'api')\<close> of the two supplier selects.
\<close>

definition listed_api :: "IntegrationsState \<Rightarrow> string \<Rightarrow> bool" where
  "listed_api st sid = (\<exists>s \<in> set (suppliers st). sup_id s = sid \<and> integration_type s = ''api'')"

text \<open>Which configuration fields are rendered: the API key always, the others by supplier.\<close>

fun config_field_rendered :: "IntegrationsState \<Rightarrow> config_field \<Rightarrow> bool" where
  "config_field_rendered st FApiKey = True"
| "config_field_rendered st FLocationId = (configSupplier st = ''bidfood'')"
| "config_field_rendered st FAccountNumber = (configSupplier st = ''pfd'')"
| "config_field_rendered st FRestaurantId = (configSupplier st = ''ordermentum'')"

fun set_config_field :: "config_field \<Rightarrow> string \<Rightarrow> ConfigData \<Rightarrow> ConfigData" where
  "set_config_field FApiKey v c = c\<lparr>api_key := v\<rparr>"
| "set_config_field FLocationId v c = c\<lparr>location_id := v\<rparr>"
| "set_config_field FAccountNumber v c = c\<lparr>account_number := v\<rparr>"
| "set_config_field FRestaurantId v c = c\<lparr>restaurant_id := v\<rparr>"

text \<open>
  Which text fields of the order dialog are rendered: the supplier name for the pdf and
  email types, the supplier email for the email type, the others always.
\<close>

fun order_field_rendered :: "IntegrationsState \<Rightarrow> order_field \<Rightarrow> bool" where
  "order_field_rendered st FSupplierName = (orderType st \<noteq> api)"
| "order_field_rendered st FSupplierEmail = (orderType st \<noteq> api \<and> orderType st = email)"
| "order_field_rendered st f = True"

fun set_order_field :: "order_field \<Rightarrow> string \<Rightarrow> OrderData \<Rightarrow> OrderData" where
  "set_order_field FSupplierName v od = od\<lparr>supplier_name := v\<rparr>"
| "set_order_field FSupplierEmail v od = od\<lparr>supplier_email := v\<rparr>"
| "set_order_field FDeliveryAddress v od = od\<lparr>delivery_address := v\<rparr>"
| "set_order_field FDeliveryDate v od = od\<lparr>delivery_date := v\<rparr>"
| "set_order_field FContactPerson v od = od\<lparr>contact_person := v\<rparr>"
| "set_order_field FContactPhone v od = od\<lparr>contact_phone := v\<rparr>"
| "set_order_field FContactEmail v od = od\<lparr>contact_email := v\<rparr>"
| "set_order_field FNotes v od = od\<lparr>order_notes := v\<rparr>"

text \<open>The \<open>disabled\<close> attributes of the three submit buttons.\<close>

definition configure_integration_disabled :: "IntegrationsState \<Rightarrow> bool" where
  "configure_integration_disabled st =
     (configSupplier st = [] \<or> api_key (configData st) = [] \<or> loading st)"

definition dialog_configure_disabled :: "IntegrationsState \<Rightarrow> bool" where
  "dialog_configure_disabled st = (api_key (configData st) = [] \<or> loading st)"

definition place_order_disabled :: "IntegrationsState \<Rightarrow> bool" where
  "place_order_disabled st = (loading st \<or> length (items (orderData st)) = 0)"

text \<open>\<open>{success && (<Alert ...>)}\<close>: the alert is there for a message that is not empty.\<close>

definition shown :: "string option \<Rightarrow> bool" where
  "shown message = (case message of None \<Rightarrow> False | Some m \<Rightarrow> m \<noteq> [])"

definition rendered :: "bool \<Rightarrow> 'a \<Rightarrow> 'a option" where
  "rendered b x = (if b then Some x else None)"

fun ui_step :: "IntegrationsState \<Rightarrow> ui_event \<Rightarrow> (IntegrationsState \<times> http_request list) option" where
  "ui_step st (Mount sresp oresp) =
     Some (loadOrders oresp (loadSuppliers sresp st),
           [\<lparr>http_method = ''GET'', http_path = API_PREFIX @ ''/suppliers'', http_body = None\<rparr>,
            loadOrders_request])"
| "ui_step st DismissSuccess =
     rendered (no_dialog st \<and> shown (success st)) (st\<lparr>success := None\<rparr>, [])"
| "ui_step st DismissError =
     rendered (no_dialog st \<and> shown (error st)) (st\<lparr>error := None\<rparr>, [])"
| "ui_step st (SelectTab n) =
     rendered (no_dialog st \<and> n < 4) (st\<lparr>activeTab := n\<rparr>, [])"
| "ui_step st (ClickConfigure sid) =
     rendered (no_dialog st \<and> activeTab st = 0 \<and> listed st sid)
       (st\<lparr>configSupplier := sid, showConfigDialog := True\<rparr>, [])"
| "ui_step st (ClickTest sid resp) =
     rendered (no_dialog st \<and> activeTab st = 0 \<and> listed_api st sid \<and> \<not> loading st)
       (testConnection sid resp st, [testConnection_request sid])"
| "ui_step st (ClickViewProducts sid resp) =
     rendered (no_dialog st \<and> activeTab st = 0 \<and> listed st sid \<and> \<not> loading st)
       (getProducts sid resp st, [getProducts_request sid None])"
| "ui_step st ClickProductsPlaceOrder =
     rendered (no_dialog st \<and> activeTab st = 1 \<and> selectedSupplier st \<noteq> [])
       (st\<lparr>orderType := api,
           orderData := (orderData st)\<lparr>supplier_id := selectedSupplier st\<rparr>,
           showOrderDialog := True\<rparr>, [])"
| "ui_step st (SelectConfigSupplier sid) =
     rendered (no_dialog st \<and> activeTab st = 3 \<and> listed_api st sid)
       (st\<lparr>configSupplier := sid\<rparr>, [])"
| "ui_step st (EditConfig f v) =
     rendered ((showConfigDialog st \<or> (no_dialog st \<and> activeTab st = 3)) \<and> config_field_rendered st f)
       (st\<lparr>configData := set_config_field f v (configData st)\<rparr>, [])"
| "ui_step st (ClickConfigureIntegration resp) =
     rendered (no_dialog st \<and> activeTab st = 3 \<and> \<not> configure_integration_disabled st)
       (configureSupplier resp st, [configureSupplier_request st])"
| "ui_step st (ClickDialogConfigure resp) =
     rendered (showConfigDialog st \<and> \<not> dialog_configure_disabled st)
       (configureSupplier resp st, [configureSupplier_request st])"
| "ui_step st CloseConfigDialog =
     rendered (showConfigDialog st) (st\<lparr>showConfigDialog := False\<rparr>, [])"
| "ui_step st (ChooseOrderType t) =
     rendered (showOrderDialog st) (st\<lparr>orderType := t\<rparr>, [])"
| "ui_step st (ChooseOrderSupplier sid) =
     rendered (showOrderDialog st \<and> orderType st = api \<and> listed_api st sid)
       (st\<lparr>orderData := (orderData st)\<lparr>supplier_id := sid\<rparr>\<rparr>, [])"
| "ui_step st (EditOrder f v) =
     rendered (showOrderDialog st \<and> order_field_rendered st f)
       (st\<lparr>orderData := set_order_field f v (orderData st)\<rparr>, [])"
| "ui_step st ClickAddItem =
     rendered (showOrderDialog st) (addOrderItem st, [])"
| "ui_step st (EditItem index e) =
     rendered (showOrderDialog st \<and> index < length (items (orderData st)))
       (updateOrderItem index e st, [])"
| "ui_step st (ClickRemoveItem index) =
     rendered (showOrderDialog st \<and> index < length (items (orderData st)))
       (removeOrderItem index st, [])"
| "ui_step st (ClickPlaceOrder resp oresp) =
     rendered (showOrderDialog st \<and> \<not> place_order_disabled st)
       (placeOrder resp oresp st,
        placeOrder_request st # (case resp of RespOk d \<Rightarrow> [loadOrders_request] | _ \<Rightarrow> []))"
| "ui_step st CloseOrderDialog =
     rendered (showOrderDialog st) (st\<lparr>showOrderDialog := False\<rparr>, [])"

text \<open>
  A session: the events in order, with the requests they issue; \<open>None\<close> when some event
  is not available in the state it meets.
\<close>

fun ui_run :: "IntegrationsState \<Rightarrow> ui_event list \<Rightarrow> (IntegrationsState \<times> http_request list) option" where
  "ui_run st [] = Some (st, [])"
| "ui_run st (e # es) =
     (case ui_step st e of
        None \<Rightarrow> None
      | Some (st', reqs) \<Rightarrow>
          (case ui_run st' es of
             None \<Rightarrow> None
           | Some (st'', reqs') \<Rightarrow> Some (st'', reqs @ reqs')))"


section \<open>Setup wizard (SetupWizard component)\<close>
















section \<open>Integration Registry: configuring a connection\<close>

text \<open>
  Modelled from the spec: the \<open>SupplierConnection\<close> entity with its status, and the
  registry's error. The server side of \<open>POST /configure\<close> is missing from the sources;
  the component above is its only caller there.
\<close>

datatype connection_status = unconfigured | configured | verified | connection_error

record SupplierConnection =
  tenant_id :: string
  connection_supplier_id :: string
  credential_handle :: "string option"
  status :: connection_status
  last_verified :: "nat option"

datatype registry_error = ConfigurationError "string list"

type_synonym vault = "string \<rightharpoonup> (string \<rightharpoonup> string)"

text \<open>
  Modelled from the spec: the required fields that the submitted configuration does not
  contain (the registry's completeness check against \<open>required_config\<close>; the server code
  that performs it is missing from the sources).
\<close>

definition missing_fields :: "Supplier \<Rightarrow> (string \<rightharpoonup> string) \<Rightarrow> string list" where
  "missing_fields d configFields = filter (\<lambda>f. configFields f = None) (required_config d)"

text \<open>
  Modelled from the spec: \<open>configure(tenant, supplierId, configFields)\<close> of the
  Integration Registry (missing from the sources). It validates field completeness against
  the definition's \<open>required_config\<close>, stores the secrets through the vault interface
  under a handle, and sets the status to \<open>configured\<close>; when a required field is
  omitted it returns \<open>ConfigurationError\<close> and changes neither the connection nor the
  vault.
\<close>

definition configure :: "Supplier \<Rightarrow> (string \<rightharpoonup> string) \<Rightarrow> SupplierConnection \<times> vault
    \<Rightarrow> (registry_error + unit) \<times> (SupplierConnection \<times> vault)" where
  "configure d configFields cv =
     (let c = fst cv; v = snd cv; handle = tenant_id c @ ''/'' @ sup_id d in
      if missing_fields d configFields = [] then
        (Inr (), (c\<lparr>credential_handle := Some handle, status := configured\<rparr>,
                  v(handle \<mapsto> configFields)))
      else (Inl (ConfigurationError (missing_fields d configFields)), (c, v)))"


section \<open>POS Sync Engine: idempotent apply\<close>

text \<open>
  Modelled from the spec: the stream types and the payload of a \<open>SyncEvent\<close>. The sync
  engine is missing from the sources: no source file handles sync events. A payload is a
  sale line or a stock delta with a signed quantity (a sale of three units carries
  \<open>-3\<close>), or an adjustment that sets the stock.
\<close>

datatype stream_type = sales | inventory

datatype payload =
    SaleLine string int
  | StockDelta string int
  | StockSet string int

text \<open>
  Modelled from the spec: the \<open>SyncEvent\<close> entity (event id, stream type, payload,
  arrival time); its processed flag is kept in the engine's state below.
\<close>

record SyncEvent =
  event_id :: string
  event_stream :: stream_type
  event_payload :: payload
  arrival :: nat

text \<open>
  Modelled from the spec: the inventory ledger (quantity per tenant and product) with the
  keys of the events already processed, per tenant and stream, and the ledger's answer to
  an update.
\<close>

record sync_state =
  ledger :: "string \<times> string \<Rightarrow> int"
  processed :: "(string \<times> stream_type \<times> string) list"

datatype ledger_result = Ok | Conflict

text \<open>
  Modelled from the spec: the inventory delta of a payload on the ledger (sale: decrement
  by the signed quantity; restock or adjustment: increment or set). The ledger is an
  external collaborator and the code applying the delta is missing from the sources.
\<close>

fun apply_payload :: "string \<Rightarrow> payload \<Rightarrow> (string \<times> string \<Rightarrow> int) \<Rightarrow> (string \<times> string \<Rightarrow> int)" where
  "apply_payload tenant (SaleLine product q) l = l((tenant, product) := l (tenant, product) + q)"
| "apply_payload tenant (StockDelta product q) l = l((tenant, product) := l (tenant, product) + q)"
| "apply_payload tenant (StockSet product q) l = l((tenant, product) := q)"

text \<open>
  Modelled from the spec: the sync engine's handling of one delivered event (missing from
  the sources). If the event's key is already marked processed for that tenant and stream,
  the event is discarded without side effects; otherwise the delta is applied to the ledger
  and the key is marked, in one atomic update. The argument is the ledger's answer to that
  update: on \<open>Conflict\<close> nothing is applied and the key is not marked, so that the event
  is retried.
\<close>

definition deliver :: "string \<Rightarrow> SyncEvent \<Rightarrow> ledger_result \<Rightarrow> sync_state \<Rightarrow> sync_state" where
  "deliver tenant e answer s =
     (let key = (tenant, event_stream e, event_id e) in
      if key \<in> set (processed s) then s
      else (case answer of
              Conflict \<Rightarrow> s
            | Ok \<Rightarrow> s\<lparr>ledger := apply_payload tenant (event_payload e) (ledger s),
                      processed := key # processed s\<rparr>))"

text \<open>
  Modelled from the spec: delivery of a sequence of events of one tenant, each with the
  ledger's answer (the engine's cycle over a batch; missing from the sources).
\<close>

fun deliver_all :: "string \<Rightarrow> (SyncEvent \<times> ledger_result) list \<Rightarrow> sync_state \<Rightarrow> sync_state" where
  "deliver_all tenant [] s = s"
| "deliver_all tenant (ea # rest) s = deliver_all tenant rest (deliver tenant (fst ea) (snd ea) s)"


section \<open>Orders as the specification validates them\<close>




section \<open>Example inputs\<close>

text \<open>An order as the dialog holds it after one item has been added and edited.\<close>

definition coffee_order :: OrderData where
  "coffee_order =
     empty_order\<lparr>supplier_id := ''bidfood'', supplier_name := ''Bidfood'',
       supplier_email := ''orders@bidfood.example'',
       items := [\<lparr>product_id = [], item_name = ''coffee'', quantity = 5, item_unit = ''kg'',
                  unit_price = 25, item_notes = []\<rparr>],
       delivery_address := ''1 Main St''\<rparr>"


text \<open>Two suppliers as the server lists them: one with an API, one without.\<close>

definition bidfood :: Supplier where
  "bidfood =
     \<lparr>sup_id = ''bidfood'', sup_name = ''Bidfood'',
      sup_description = ''Leading foodservice distributor'', integration_type = ''api'',
      features = [''real_time_pricing'', ''automated_ordering''],
      categories = [''food'', ''beverages''], minimum_order = 200, delivery_lead_time = 2,
      required_config = [''api_key'', ''location_id'']\<rparr>"

definition local_farm :: Supplier where
  "local_farm =
     \<lparr>sup_id = ''local_farm'', sup_name = ''Local Farm'',
      sup_description = ''Orders by phone or order sheet'', integration_type = ''manual'',
      features = [], categories = [''produce''], minimum_order = 50, delivery_lead_time = 1,
      required_config = []\<rparr>"

definition eggs :: Product where
  "eggs =
     \<lparr>catalog_product_id = ''eggs-12'', product_name = ''Eggs'', product_description = ''Dozen'',
      price = 6, product_unit = ''box'', category = ''produce'', in_stock = True,
      min_order_qty = 1, lead_time_days = 1, last_updated = ''2024-01-01''\<rparr>"



text \<open>A state in which a catalog has been loaded for Bidfood.\<close>

definition catalog_state :: IntegrationsState where
  "catalog_state =
     initial_state\<lparr>suppliers := [bidfood, local_farm], products := [eggs],
       selectedSupplier := ''bidfood''\<rparr>"

text \<open>
  A session on the supplier without an API: the page loads, the user views the products of
  Local Farm, goes to the Products tab, presses Place Order there, adds one item and presses
  Place Order in the dialog.
\<close>

definition manual_order_session :: "ui_event list" where
  "manual_order_session =
     [Mount (RespOk [bidfood, local_farm]) (RespOk []),
      ClickViewProducts ''local_farm'' (RespOk [eggs]),
      SelectTab 1,
      ClickProductsPlaceOrder,
      ClickAddItem,
      ClickPlaceOrder (RespOk ''ORD-7'') (RespOk [])]"






text \<open>
  The ledger of tenant \<open>t1\<close> with ten units of milk, nothing processed yet, and the sale
  event \<open>E1\<close> of three units of milk.
\<close>

definition pantry :: sync_state where
  "pantry = \<lparr>ledger = (\<lambda>k. 0)((''t1'', ''milk'') := 10), processed = []\<rparr>"

definition milk_sale :: SyncEvent where
  "milk_sale =
     \<lparr>event_id = ''E1'', event_stream = sales, event_payload = SaleLine ''milk'' (- 3),
      arrival = 0\<rparr>"

chapter \<open>Properties\<close>

section \<open>Sales auto-deduction rules\<close>

lemma handleToggleRule_involution:
  "handleToggleRule i (handleToggleRule i s) = s"
proof -
  let ?f = "\<lambda>rule. if rule_id rule = i then rule\<lparr>active := \<not> active rule\<rparr> else rule"
  have "map ?f (map ?f (rules s)) = rules s"
    by (induction "rules s" arbitrary: s) (simp_all add: map_idI)
  then show ?thesis
    by (simp add: handleToggleRule_def)
qed

lemma handleToggleRule_length:
  "length (rules (handleToggleRule i s)) = length (rules s)"
  by (simp add: handleToggleRule_def)

lemma handleToggleRule_nth:
  assumes "k < length (rules s)"
  shows "rules (handleToggleRule i s) ! k =
           (if rule_id (rules s ! k) = i
            then (rules s ! k)\<lparr>active := \<not> active (rules s ! k)\<rparr> else rules s ! k)"
  using assms by (simp add: handleToggleRule_def)

text \<open>
  Claim C8. Toggling the same rule id twice gives back the original rules list (and the
  whole component state). One toggle keeps the number and order of the rules, keeps the
  id, name, percentage and description of every rule, keeps the \<open>active\<close> flag of every rule
  whose id differs from the given one, negates the flag of every rule whose id matches, and
  leaves the \<open>newRule\<close> form alone.
\<close>

theorem handleToggleRule_twice_and_frame:
  "handleToggleRule i (handleToggleRule i s) = s
   \<and> rules (handleToggleRule i (handleToggleRule i s)) = rules s
   \<and> length (rules (handleToggleRule i s)) = length (rules s)
   \<and> newRule (handleToggleRule i s) = newRule s
   \<and> (\<forall>k < length (rules s).
        rule_id (rules (handleToggleRule i s) ! k) = rule_id (rules s ! k)
        \<and> rule_name (rules (handleToggleRule i s) ! k) = rule_name (rules s ! k)
        \<and> percentage (rules (handleToggleRule i s) ! k) = percentage (rules s ! k)
        \<and> rule_description (rules (handleToggleRule i s) ! k) = rule_description (rules s ! k)
        \<and> active (rules (handleToggleRule i s) ! k) =
            (if rule_id (rules s ! k) = i then \<not> active (rules s ! k) else active (rules s ! k))
        \<and> (rule_id (rules s ! k) \<noteq> i \<longrightarrow> rules (handleToggleRule i s) ! k = rules s ! k))"
proof -
  have frame: "newRule (handleToggleRule i s) = newRule s"
    by (simp add: handleToggleRule_def)
  show ?thesis
    by (simp add: handleToggleRule_involution handleToggleRule_length handleToggleRule_nth frame)
qed

theorem handleToggleRule_twice_and_frame_witness:
  "handleToggleRule ''2'' (handleToggleRule ''2'' initial_sales_state) = initial_sales_state
   \<and> (1::nat) < length (rules initial_sales_state)
   \<and> active (rules (handleToggleRule ''2'' initial_sales_state) ! 1)
   \<and> rule_name (rules (handleToggleRule ''2'' initial_sales_state) ! 1) = ''Weekend Sales Deduction''
   \<and> rules (handleToggleRule ''2'' initial_sales_state) ! 0 = rules initial_sales_state ! 0"
proof -
  have len: "(1::nat) < length (rules initial_sales_state)"
    by (simp add: initial_sales_state_def)
  have zero: "(0::nat) < length (rules initial_sales_state)"
    by (simp add: initial_sales_state_def)
  note inst = handleToggleRule_twice_and_frame [of "''2''" initial_sales_state]
  from inst have inv: "handleToggleRule ''2'' (handleToggleRule ''2'' initial_sales_state)
                      = initial_sales_state"
    by blast
  from inst len have one:
    "active (rules (handleToggleRule ''2'' initial_sales_state) ! 1) =
       (if rule_id (rules initial_sales_state ! 1) = ''2''
        then \<not> active (rules initial_sales_state ! 1) else active (rules initial_sales_state ! 1))
     \<and> rule_name (rules (handleToggleRule ''2'' initial_sales_state) ! 1)
        = rule_name (rules initial_sales_state ! 1)"
    by blast
  from inst zero have other:
    "rule_id (rules initial_sales_state ! 0) \<noteq> ''2'' \<longrightarrow>
       rules (handleToggleRule ''2'' initial_sales_state) ! 0 = rules initial_sales_state ! 0"
    by blast
  from one have "active (rules (handleToggleRule ''2'' initial_sales_state) ! 1)"
    and "rule_name (rules (handleToggleRule ''2'' initial_sales_state) ! 1)
         = ''Weekend Sales Deduction''"
    by (simp_all add: initial_sales_state_def)
  moreover from other
  have "rules (handleToggleRule ''2'' initial_sales_state) ! 0 = rules initial_sales_state ! 0"
    by (simp add: initial_sales_state_def)
  ultimately show ?thesis using inv len by blast
qed

text \<open>
  Claim C9. When the entered name is not empty and the entered percentage is strictly
  positive, \<open>handleAddRule\<close> appends exactly one rule to the end of the list: it is
  inactive and carries the entered name, percentage and description (its id is the decimal
  rendering of the clock value). In every other case the rules list, and indeed the whole
  state, is unchanged.
\<close>

theorem handleAddRule_appends_one_or_nothing:
  "(new_name (newRule s) \<noteq> [] \<and> new_percentage (newRule s) > 0 \<longrightarrow>
      rules (handleAddRule now s) =
        rules s @ [\<lparr>rule_id = toString now,
                    rule_name = new_name (newRule s),
                    percentage = new_percentage (newRule s),
                    active = False,
                    rule_description = new_description (newRule s)\<rparr>]
      \<and> length (rules (handleAddRule now s)) = Suc (length (rules s))
      \<and> take (length (rules s)) (rules (handleAddRule now s)) = rules s
      \<and> \<not> active (last (rules (handleAddRule now s))))
   \<and> (\<not> (new_name (newRule s) \<noteq> [] \<and> new_percentage (newRule s) > 0) \<longrightarrow>
      rules (handleAddRule now s) = rules s \<and> handleAddRule now s = s)"
  by (simp add: handleAddRule_def Let_def)

theorem handleAddRule_appends_one_or_nothing_witness:
  "rules (handleAddRule 42 (initial_sales_state\<lparr>newRule :=
       \<lparr>new_name = ''Tips'', new_percentage = 2.5, new_description = ''Tip pool''\<rparr>\<rparr>))
     = rules initial_sales_state @
       [\<lparr>rule_id = ''42'', rule_name = ''Tips'', percentage = 2.5, active = False,
         rule_description = ''Tip pool''\<rparr>]
   \<and> handleAddRule 42 (initial_sales_state\<lparr>newRule :=
       \<lparr>new_name = ''Tips'', new_percentage = 0, new_description = ''Tip pool''\<rparr>\<rparr>)
     = initial_sales_state\<lparr>newRule :=
       \<lparr>new_name = ''Tips'', new_percentage = 0, new_description = ''Tip pool''\<rparr>\<rparr>
   \<and> handleAddRule 42 initial_sales_state = initial_sales_state"
proof -
  let ?ok = "initial_sales_state\<lparr>newRule :=
       \<lparr>new_name = ''Tips'', new_percentage = 2.5, new_description = ''Tip pool''\<rparr>\<rparr>"
  let ?zero = "initial_sales_state\<lparr>newRule :=
       \<lparr>new_name = ''Tips'', new_percentage = 0, new_description = ''Tip pool''\<rparr>\<rparr>"
  have "rules (handleAddRule 42 ?ok) =
          rules ?ok @ [\<lparr>rule_id = toString 42, rule_name = new_name (newRule ?ok),
                        percentage = new_percentage (newRule ?ok), active = False,
                        rule_description = new_description (newRule ?ok)\<rparr>]"
    using handleAddRule_appends_one_or_nothing [of ?ok 42] by simp
  then have a: "rules (handleAddRule 42 ?ok) = rules initial_sales_state @
       [\<lparr>rule_id = ''42'', rule_name = ''Tips'', percentage = 2.5, active = False,
         rule_description = ''Tip pool''\<rparr>]"
    by (simp add: toString.simps)
  have b: "handleAddRule 42 ?zero = ?zero"
    using handleAddRule_appends_one_or_nothing [of ?zero 42] by simp
  have c: "handleAddRule 42 initial_sales_state = initial_sales_state"
    using handleAddRule_appends_one_or_nothing [of initial_sales_state 42]
    by (simp add: initial_sales_state_def)
  from a b c show ?thesis by blast
qed

section \<open>Supplier API integrations: the order request\<close>

lemma order_common_keys:
  "map fst (order_common_fields od) =
     [''items'', ''delivery_address'', ''delivery_date'', ''contact_person'', ''contact_phone'',
      ''contact_email'', ''notes'', ''urgent'']"
  by (simp add: order_common_fields_def)

lemma requestData_api:
  "placeOrder_requestData api od =
     (''supplier_id'', JString (supplier_id od)) # order_common_fields od"
  by (simp add: placeOrder_requestData_def)

lemma requestData_pdf:
  "placeOrder_requestData pdf od =
     (''supplier_name'', JString (supplier_name od)) # order_common_fields od"
  by (simp add: placeOrder_requestData_def)

lemma requestData_email:
  "placeOrder_requestData email od =
     (''supplier_name'', JString (supplier_name od)) #
     (''supplier_email'', JString (supplier_email od)) # order_common_fields od"
  by (simp add: placeOrder_requestData_def)

lemma order_common_lookup_none:
  "k \<notin> set (map fst (order_common_fields od)) \<Longrightarrow> map_of (order_common_fields od) k = None"
  by (simp add: map_of_eq_None_iff)

lemma supplier_email_only_in_email:
  "(''supplier_email'' \<in> fst ` set (placeOrder_requestData t od)) = (t = email)"
proof -
  have "''supplier_email'' \<notin> fst ` set (order_common_fields od)"
    by (simp add: order_common_fields_def)
  then show ?thesis
    by (cases t) (simp_all add: requestData_api requestData_pdf requestData_email)
qed

lemma common_fields_in_every_channel:
  assumes "k \<in> set (map fst (order_common_fields od))"
  shows "map_of (placeOrder_requestData t od) k = map_of (order_common_fields od) k"
proof -
  from assms have "k \<noteq> ''supplier_id''" "k \<noteq> ''supplier_name''" "k \<noteq> ''supplier_email''"
    by (auto simp: order_common_keys)
  then show ?thesis
    by (cases t) (simp_all add: requestData_api requestData_pdf requestData_email)
qed

lemma order_paths:
  "http_path (placeOrder_request st) =
     (case orderType st of
        api \<Rightarrow> ''/api/supplier-api-integrations/order''
      | pdf \<Rightarrow> ''/api/supplier-api-integrations/order-sheet/pdf''
      | email \<Rightarrow> ''/api/supplier-api-integrations/order-sheet/email'')"
  by (cases "orderType st")
     (simp_all add: placeOrder_request_def placeOrder_endpoint_def API_PREFIX_def)

text \<open>
  Claim C2. The request of \<open>placeOrder\<close> is a POST routed by the selected channel: \<open>api\<close>
  goes to \<open>/order\<close> and its body starts with \<open>supplier_id\<close>; \<open>pdf\<close> goes to
  \<open>/order-sheet/pdf\<close> and its body starts with \<open>supplier_name\<close>; \<open>email\<close> goes to
  \<open>/order-sheet/email\<close> and its body has \<open>supplier_name\<close> and \<open>supplier_email\<close>. The
  field \<open>supplier_email\<close> is in the body of the email channel only. In all three channels
  the remaining fields are the same eight (items, delivery address and date, the three
  contact fields, notes, urgent), with the same values.
\<close>

theorem placeOrder_routed_by_channel:
  "http_method (placeOrder_request st) = ''POST''
   \<and> http_body (placeOrder_request st) = Some (placeOrder_requestData (orderType st) (orderData st))
   \<and> http_path (placeOrder_request st) =
       (case orderType st of
          api \<Rightarrow> ''/api/supplier-api-integrations/order''
        | pdf \<Rightarrow> ''/api/supplier-api-integrations/order-sheet/pdf''
        | email \<Rightarrow> ''/api/supplier-api-integrations/order-sheet/email'')
   \<and> placeOrder_requestData api od =
       (''supplier_id'', JString (supplier_id od)) # order_common_fields od
   \<and> placeOrder_requestData pdf od =
       (''supplier_name'', JString (supplier_name od)) # order_common_fields od
   \<and> placeOrder_requestData email od =
       (''supplier_name'', JString (supplier_name od)) #
       (''supplier_email'', JString (supplier_email od)) # order_common_fields od
   \<and> ((''supplier_email'' \<in> fst ` set (placeOrder_requestData t od)) = (t = email))
   \<and> map fst (order_common_fields od) =
       [''items'', ''delivery_address'', ''delivery_date'', ''contact_person'', ''contact_phone'',
        ''contact_email'', ''notes'', ''urgent'']
   \<and> (\<forall>k \<in> set (map fst (order_common_fields od)).
         map_of (placeOrder_requestData t od) k = map_of (order_common_fields od) k)"
proof -
  have "http_method (placeOrder_request st) = ''POST''"
    and "http_body (placeOrder_request st) =
           Some (placeOrder_requestData (orderType st) (orderData st))"
    by (simp_all add: placeOrder_request_def)
  moreover have "\<forall>k \<in> set (map fst (order_common_fields od)).
         map_of (placeOrder_requestData t od) k = map_of (order_common_fields od) k"
    using common_fields_in_every_channel by blast
  ultimately show ?thesis
    using order_paths [of st] requestData_api [of od] requestData_pdf [of od]
      requestData_email [of od] supplier_email_only_in_email [of t od] order_common_keys [of od]
    by blast
qed

theorem placeOrder_routed_by_channel_witness:
  "http_path (placeOrder_request (initial_state\<lparr>orderType := email, orderData := coffee_order\<rparr>))
     = ''/api/supplier-api-integrations/order-sheet/email''
   \<and> ''supplier_email'' \<in> fst ` set (placeOrder_requestData email coffee_order)
   \<and> ''supplier_email'' \<notin> fst ` set (placeOrder_requestData pdf coffee_order)
   \<and> ''supplier_email'' \<notin> fst ` set (placeOrder_requestData api coffee_order)
   \<and> ''delivery_address'' \<in> set (map fst (order_common_fields coffee_order))
   \<and> map_of (placeOrder_requestData api coffee_order) ''delivery_address''
       = Some (JString ''1 Main St'')
   \<and> map_of (placeOrder_requestData pdf coffee_order) ''delivery_address''
       = Some (JString ''1 Main St'')
   \<and> map_of (placeOrder_requestData email coffee_order) ''delivery_address''
       = Some (JString ''1 Main St'')"
proof -
  let ?st = "initial_state\<lparr>orderType := email, orderData := coffee_order\<rparr>"
  have mem: "''delivery_address'' \<in> set (map fst (order_common_fields coffee_order))"
    by (simp add: order_common_fields_def)
  have val: "map_of (order_common_fields coffee_order) ''delivery_address''
               = Some (JString ''1 Main St'')"
    by (simp add: order_common_fields_def coffee_order_def empty_order_def)
  have "http_path (placeOrder_request ?st) =
       (case orderType ?st of
          api \<Rightarrow> ''/api/supplier-api-integrations/order''
        | pdf \<Rightarrow> ''/api/supplier-api-integrations/order-sheet/pdf''
        | email \<Rightarrow> ''/api/supplier-api-integrations/order-sheet/email'')"
    using placeOrder_routed_by_channel [of ?st coffee_order email] by blast
  then have "http_path (placeOrder_request ?st)
               = ''/api/supplier-api-integrations/order-sheet/email''"
    by simp
  moreover have "(''supplier_email'' \<in> fst ` set (placeOrder_requestData email coffee_order))
                   = (email = email)"
    using placeOrder_routed_by_channel [of ?st coffee_order email] by blast
  then have "''supplier_email'' \<in> fst ` set (placeOrder_requestData email coffee_order)"
    by simp
  moreover have "(''supplier_email'' \<in> fst ` set (placeOrder_requestData pdf coffee_order))
                   = (pdf = email)"
    using placeOrder_routed_by_channel [of ?st coffee_order pdf] by blast
  then have "''supplier_email'' \<notin> fst ` set (placeOrder_requestData pdf coffee_order)"
    by simp
  moreover have "(''supplier_email'' \<in> fst ` set (placeOrder_requestData api coffee_order))
                   = (api = email)"
    using placeOrder_routed_by_channel [of ?st coffee_order api] by blast
  then have "''supplier_email'' \<notin> fst ` set (placeOrder_requestData api coffee_order)"
    by simp
  moreover have "map_of (placeOrder_requestData api coffee_order) ''delivery_address''
       = Some (JString ''1 Main St'')"
    using placeOrder_routed_by_channel [of ?st coffee_order api] mem val by metis
  moreover have "map_of (placeOrder_requestData pdf coffee_order) ''delivery_address''
       = Some (JString ''1 Main St'')"
    using placeOrder_routed_by_channel [of ?st coffee_order pdf] mem val by metis
  moreover have "map_of (placeOrder_requestData email coffee_order) ''delivery_address''
       = Some (JString ''1 Main St'')"
    using placeOrder_routed_by_channel [of ?st coffee_order email] mem val by metis
  ultimately show ?thesis using mem by blast
qed


lemma requestData_no_order_id:
  "map_of (placeOrder_requestData t od) ''order_id'' = None"
proof -
  have "map_of (order_common_fields od) ''order_id'' = None"
    by (rule order_common_lookup_none) (simp add: order_common_keys)
  then show ?thesis
    by (cases t) (simp_all add: requestData_api requestData_pdf requestData_email)
qed

text \<open>
  Claim C5, as the code has it. No channel's request body contains an \<open>order_id\<close>
  field: the caller supplies no order id. The order id the component shows comes from the
  server's answer to a successful placement.
\<close>

theorem placeOrder_body_without_order_id:
  "map_of (placeOrder_requestData t od) ''order_id'' = None
   \<and> ''order_id'' \<notin> fst ` set (placeOrder_requestData t od)
   \<and> http_body (placeOrder_request st) = Some (placeOrder_requestData (orderType st) (orderData st))
   \<and> success (placeOrder (RespOk oid) oresp st)
       = Some (''Order placed successfully! Order ID: '' @ oid)"
proof -
  have a: "map_of (placeOrder_requestData t od) ''order_id'' = None"
    by (rule requestData_no_order_id)
  then have b: "''order_id'' \<notin> fst ` set (placeOrder_requestData t od)"
    by (simp add: map_of_eq_None_iff)
  have c: "http_body (placeOrder_request st)
             = Some (placeOrder_requestData (orderType st) (orderData st))"
    by (simp add: placeOrder_request_def)
  have d: "success (placeOrder (RespOk oid) oresp st)
             = Some (''Order placed successfully! Order ID: '' @ oid)"
    by (cases oresp) (simp_all add: placeOrder_def loadOrders_def resetOrderData_def)
  from a b c d show ?thesis by blast
qed

theorem placeOrder_body_without_order_id_witness:
  "map_of (placeOrder_requestData api coffee_order) ''order_id'' = None
   \<and> success (placeOrder (RespOk ''ORD-1'') (RespOk [])
        (initial_state\<lparr>orderType := api, orderData := coffee_order\<rparr>))
       = Some ''Order placed successfully! Order ID: ORD-1''"
  using placeOrder_body_without_order_id
    [of api coffee_order "initial_state\<lparr>orderType := api, orderData := coffee_order\<rparr>"
        "''ORD-1''" "RespOk []"]
  by simp

text \<open>
  The claim as the specification words it fails on the body of every channel, here for
  the coffee order: the keys of the three bodies are listed in full and none of them is an
  order id.
\<close>

theorem placeOrder_order_id_counterexample:
  "map fst (placeOrder_requestData api coffee_order) =
     [''supplier_id'', ''items'', ''delivery_address'', ''delivery_date'', ''contact_person'',
      ''contact_phone'', ''contact_email'', ''notes'', ''urgent'']
   \<and> map fst (placeOrder_requestData pdf coffee_order) =
     [''supplier_name'', ''items'', ''delivery_address'', ''delivery_date'', ''contact_person'',
      ''contact_phone'', ''contact_email'', ''notes'', ''urgent'']
   \<and> map fst (placeOrder_requestData email coffee_order) =
     [''supplier_name'', ''supplier_email'', ''items'', ''delivery_address'', ''delivery_date'',
      ''contact_person'', ''contact_phone'', ''contact_email'', ''notes'', ''urgent'']
   \<and> ''order_id'' \<notin> set (map fst (placeOrder_requestData api coffee_order))
   \<and> ''order_id'' \<notin> set (map fst (placeOrder_requestData pdf coffee_order))
   \<and> ''order_id'' \<notin> set (map fst (placeOrder_requestData email coffee_order))"
  by (simp add: requestData_api requestData_pdf requestData_email order_common_keys)


section \<open>Supplier API integrations: loading a catalog\<close>

lemma getProducts_ok:
  "getProducts sid (RespOk d) st = st\<lparr>products := d, selectedSupplier := sid, loading := False\<rparr>"
  by (simp add: getProducts_def)

lemma getProducts_failure:
  assumes "\<forall>d. resp \<noteq> RespOk d"
  shows "getProducts sid resp st = st\<lparr>error := Some ''Failed to load products'', loading := False\<rparr>
         \<or> getProducts sid resp st = st\<lparr>error := Some ''Error loading products'', loading := False\<rparr>"
  using assms by (cases resp) (simp_all add: getProducts_def)

text \<open>
  Claim C7. When \<open>getProducts\<close> fails (the response is not ok, the body of an ok
  response does not parse, or \<open>fetch\<close> throws), the component records an explicit error
  message, and the loaded products and the selected supplier are what they were before the
  call. The products or the selected supplier differ after the call only when the fetch
  succeeded, and then they are the fetched list and the requested supplier.
\<close>

theorem getProducts_failure_keeps_catalog:
  "((\<forall>d. resp \<noteq> RespOk d) \<longrightarrow>
      (error (getProducts sid resp st) = Some ''Failed to load products''
       \<or> error (getProducts sid resp st) = Some ''Error loading products'')
      \<and> products (getProducts sid resp st) = products st
      \<and> selectedSupplier (getProducts sid resp st) = selectedSupplier st
      \<and> suppliers (getProducts sid resp st) = suppliers st)
   \<and> (products (getProducts sid resp st) \<noteq> products st
        \<or> selectedSupplier (getProducts sid resp st) \<noteq> selectedSupplier st
      \<longrightarrow> (\<exists>d. resp = RespOk d))
   \<and> products (getProducts sid (RespOk d) st) = d
   \<and> selectedSupplier (getProducts sid (RespOk d) st) = sid
   \<and> error (getProducts sid (RespOk d) st) = error st"
proof -
  have fail: "(\<forall>d. resp \<noteq> RespOk d) \<longrightarrow>
      (error (getProducts sid resp st) = Some ''Failed to load products''
       \<or> error (getProducts sid resp st) = Some ''Error loading products'')
      \<and> products (getProducts sid resp st) = products st
      \<and> selectedSupplier (getProducts sid resp st) = selectedSupplier st
      \<and> suppliers (getProducts sid resp st) = suppliers st"
  proof
    assume "\<forall>d. resp \<noteq> RespOk d"
    from getProducts_failure [OF this, of sid st]
    show "(error (getProducts sid resp st) = Some ''Failed to load products''
       \<or> error (getProducts sid resp st) = Some ''Error loading products'')
      \<and> products (getProducts sid resp st) = products st
      \<and> selectedSupplier (getProducts sid resp st) = selectedSupplier st
      \<and> suppliers (getProducts sid resp st) = suppliers st"
      by (elim disjE) simp_all
  qed
  then have only: "products (getProducts sid resp st) \<noteq> products st
        \<or> selectedSupplier (getProducts sid resp st) \<noteq> selectedSupplier st
      \<longrightarrow> (\<exists>d. resp = RespOk d)"
    by blast
  have ok: "products (getProducts sid (RespOk d) st) = d
     \<and> selectedSupplier (getProducts sid (RespOk d) st) = sid
     \<and> error (getProducts sid (RespOk d) st) = error st"
    by (simp add: getProducts_ok)
  from fail only ok show ?thesis by blast
qed

theorem getProducts_failure_keeps_catalog_witness:
  "(\<forall>d. (RespNotOk None :: Product list fetch_outcome) \<noteq> RespOk d)
   \<and> error (getProducts ''local_farm'' (RespNotOk None) catalog_state)
       = Some ''Failed to load products''
   \<and> products (getProducts ''local_farm'' (RespNotOk None) catalog_state) = [eggs]
   \<and> selectedSupplier (getProducts ''local_farm'' (RespNotOk None) catalog_state) = ''bidfood''
   \<and> error (getProducts ''local_farm'' FetchThrows catalog_state)
       = Some ''Error loading products''
   \<and> products (getProducts ''local_farm'' FetchThrows catalog_state) = [eggs]
   \<and> products (getProducts ''local_farm'' (RespOk []) catalog_state) = []
   \<and> selectedSupplier (getProducts ''local_farm'' (RespOk []) catalog_state) = ''local_farm''"
proof -
  have h1: "\<forall>d. (RespNotOk None :: Product list fetch_outcome) \<noteq> RespOk d"
    by simp
  have h2: "\<forall>d. (FetchThrows :: Product list fetch_outcome) \<noteq> RespOk d"
    by simp
  have e1: "error (getProducts ''local_farm'' (RespNotOk None) catalog_state)
              = Some ''Failed to load products''"
    by (simp add: getProducts_def)
  have e2: "error (getProducts ''local_farm'' FetchThrows catalog_state)
              = Some ''Error loading products''"
    by (simp add: getProducts_def)
  have c: "products catalog_state = [eggs]" "selectedSupplier catalog_state = ''bidfood''"
    by (simp_all add: catalog_state_def initial_state_def)
  from getProducts_failure_keeps_catalog [of "RespNotOk None" "''local_farm''" catalog_state "[]"] h1
  have a: "products (getProducts ''local_farm'' (RespNotOk None) catalog_state) = products catalog_state
       \<and> selectedSupplier (getProducts ''local_farm'' (RespNotOk None) catalog_state)
           = selectedSupplier catalog_state
       \<and> products (getProducts ''local_farm'' (RespOk []) catalog_state) = []
       \<and> selectedSupplier (getProducts ''local_farm'' (RespOk []) catalog_state) = ''local_farm''"
    by blast
  from getProducts_failure_keeps_catalog [of FetchThrows "''local_farm''" catalog_state "[]"] h2
  have b: "products (getProducts ''local_farm'' FetchThrows catalog_state) = products catalog_state"
    by blast
  from h1 e1 e2 a b c show ?thesis by simp
qed


section \<open>Supplier API integrations: when an order is submitted\<close>










section \<open>Supplier API integrations: which suppliers reach the API paths\<close>

lemma ClickTest_only_api:
  assumes "ui_step st (ClickTest sid resp) = Some x"
  shows "\<exists>s \<in> set (suppliers st). sup_id s = sid \<and> integration_type s = ''api''"
  using assms by (simp add: rendered_def listed_api_def split: if_splits)

lemma ChooseOrderSupplier_only_api:
  assumes "ui_step st (ChooseOrderSupplier sid) = Some x"
  shows "\<exists>s \<in> set (suppliers st). sup_id s = sid \<and> integration_type s = ''api''"
  using assms by (simp add: rendered_def listed_api_def split: if_splits)

lemma manual_session_states:
  "ui_run initial_state (take 4 manual_order_session) =
     Some (initial_state\<lparr>suppliers := [bidfood, local_farm], products := [eggs],
             selectedSupplier := ''local_farm'', activeTab := 1, orderType := api,
             orderData := empty_order\<lparr>supplier_id := ''local_farm''\<rparr>,
             showOrderDialog := True\<rparr>,
           [\<lparr>http_method = ''GET'', http_path = ''/api/supplier-api-integrations/suppliers'',
             http_body = None\<rparr>,
            \<lparr>http_method = ''GET'', http_path = ''/api/supplier-api-integrations/orders'',
             http_body = None\<rparr>,
            \<lparr>http_method = ''GET'',
             http_path = ''/api/supplier-api-integrations/products/local_farm'',
             http_body = None\<rparr>])"
  by (simp add: manual_order_session_def initial_state_def rendered_def no_dialog_def
      listed_def loadSuppliers_def loadOrders_def loadOrders_request_def getProducts_def
      getProducts_request_def API_PREFIX_def bidfood_def local_farm_def)

text \<open>
  Claim C4, at the failing input. Local Farm has integration type \<open>manual\<close>. In the
  session above every event is available in the state it meets, and the fourth request the
  component issues is the API order: a POST to \<open>/order\<close> whose \<open>supplier_id\<close> is
  \<open>local_farm\<close>. The Place Order button of the Products tab sets the order type to
  \<open>api\<close> and the supplier to the selected one without looking at its integration type.
\<close>

theorem api_order_for_manual_supplier:
  "integration_type local_farm = ''manual''
   \<and> map_option snd (ui_run initial_state manual_order_session) =
       Some [\<lparr>http_method = ''GET'', http_path = ''/api/supplier-api-integrations/suppliers'',
               http_body = None\<rparr>,
             \<lparr>http_method = ''GET'', http_path = ''/api/supplier-api-integrations/orders'',
               http_body = None\<rparr>,
             \<lparr>http_method = ''GET'',
               http_path = ''/api/supplier-api-integrations/products/local_farm'',
               http_body = None\<rparr>,
             \<lparr>http_method = ''POST'', http_path = ''/api/supplier-api-integrations/order'',
               http_body = Some
                 [(''supplier_id'', JString ''local_farm''),
                  (''items'', JArray [JObject
                     [(''product_id'', JString []), (''name'', JString []),
                      (''quantity'', JNumber 1), (''unit'', JString ''kg''),
                      (''unit_price'', JNumber 0), (''notes'', JString [])]]),
                  (''delivery_address'', JString []), (''delivery_date'', JString []),
                  (''contact_person'', JString []), (''contact_phone'', JString []),
                  (''contact_email'', JString []), (''notes'', JString []),
                  (''urgent'', JBool False)]\<rparr>,
             \<lparr>http_method = ''GET'', http_path = ''/api/supplier-api-integrations/orders'',
               http_body = None\<rparr>]"
  by (simp add: manual_order_session_def initial_state_def rendered_def no_dialog_def
      listed_def loadSuppliers_def loadOrders_def loadOrders_request_def getProducts_def
      getProducts_request_def API_PREFIX_def bidfood_def local_farm_def
      addOrderItem_def place_order_disabled_def placeOrder_def placeOrder_request_def
      placeOrder_endpoint_def placeOrder_requestData_def order_common_fields_def
      item_json_def empty_order_def resetOrderData_def)


section \<open>Setup wizard: the step index\<close>












section \<open>Configuring a supplier connection\<close>









section \<open>POS sync: an event takes effect at most once\<close>

lemma deliver_processed:
  "(tenant, event_stream e, event_id e) \<in> set (processed s) \<Longrightarrow> deliver tenant e answer s = s"
  by (simp add: deliver_def Let_def)

lemma deliver_Conflict: "deliver tenant e Conflict s = s"
  by (simp add: deliver_def Let_def)

lemma deliver_Ok_marks:
  "(tenant, event_stream e, event_id e) \<in> set (processed (deliver tenant e Ok s))"
  by (simp add: deliver_def Let_def)

lemma deliver_keeps_marks:
  "k \<in> set (processed s) \<Longrightarrow> k \<in> set (processed (deliver tenant e answer s))"
  by (cases answer) (simp_all add: deliver_def Let_def)

lemma deliver_after_Ok:
  "deliver tenant e answer (deliver tenant e Ok s) = deliver tenant e Ok s"
  by (rule deliver_processed) (rule deliver_Ok_marks)

lemma deliver_Ok_funpow:
  "((deliver tenant e Ok) ^^ Suc n) s = deliver tenant e Ok s"
  by (induction n) (simp_all add: deliver_after_Ok)

lemma deliver_all_append:
  "deliver_all tenant (xs @ ys) s = deliver_all tenant ys (deliver_all tenant xs s)"
  by (induction xs arbitrary: s) simp_all

lemma deliver_all_same_event:
  "deliver_all tenant (map (\<lambda>a. (e, a)) answers) s = s
   \<or> deliver_all tenant (map (\<lambda>a. (e, a)) answers) s = deliver tenant e Ok s"
proof (induction answers arbitrary: s)
  case Nil
  then show ?case by simp
next
  case (Cons a answers)
  show ?case
  proof (cases "deliver tenant e a s = s")
    case True
    with Cons.IH [of s] show ?thesis by simp
  next
    case False
    then have fresh: "(tenant, event_stream e, event_id e) \<notin> set (processed s)" and "a = Ok"
      by (auto simp: deliver_processed deliver_Conflict intro: ledger_result.exhaust [of a])
    from Cons.IH [of "deliver tenant e Ok s"]
    have "deliver_all tenant (map (\<lambda>a. (e, a)) answers) (deliver tenant e Ok s)
            = deliver tenant e Ok s"
      by (auto simp: deliver_after_Ok)
    with \<open>a = Ok\<close> show ?thesis by simp
  qed
qed

lemma deliver_all_keeps_marks:
  "k \<in> set (processed s) \<Longrightarrow> k \<in> set (processed (deliver_all tenant evs s))"
  by (induction evs arbitrary: s) (simp_all add: deliver_keeps_marks)

lemma deliver_all_Ok_marks:
  "e \<in> set es \<Longrightarrow>
   (tenant, event_stream e, event_id e) \<in> set (processed (deliver_all tenant (map (\<lambda>e. (e, Ok)) es) s))"
proof (induction es arbitrary: s)
  case Nil
  then show ?case by simp
next
  case (Cons x es)
  show ?case
  proof (cases "e = x")
    case True
    then show ?thesis
      by (simp add: deliver_all_keeps_marks deliver_Ok_marks)
  next
    case False
    with Cons.prems have "e \<in> set es" by simp
    from Cons.IH [OF this] show ?thesis by simp
  qed
qed

lemma deliver_all_processed:
  "\<forall>e \<in> set es. (tenant, event_stream e, event_id e) \<in> set (processed s) \<Longrightarrow>
   deliver_all tenant (map (\<lambda>e. (e, Ok)) es) s = s"
  by (induction es) (simp_all add: deliver_processed)

lemma deliver_all_replay:
  "deliver_all tenant (concat (replicate n (map (\<lambda>e. (e, Ok)) es)))
     (deliver_all tenant (map (\<lambda>e. (e, Ok)) es) s)
   = deliver_all tenant (map (\<lambda>e. (e, Ok)) es) s"
proof (induction n)
  case 0
  then show ?case by simp
next
  case (Suc n)
  let ?once = "deliver_all tenant (map (\<lambda>e. (e, Ok)) es) s"
  have "\<forall>e \<in> set es. (tenant, event_stream e, event_id e) \<in> set (processed ?once)"
    by (simp add: deliver_all_Ok_marks)
  then have "deliver_all tenant (map (\<lambda>e. (e, Ok)) es) ?once = ?once"
    by (rule deliver_all_processed)
  with Suc.IH show ?case
    by (simp add: deliver_all_append)
qed

lemma deliver_all_duplicated:
  "deliver_all tenant (concat (replicate (Suc n) (map (\<lambda>e. (e, Ok)) es))) s
   = deliver_all tenant (map (\<lambda>e. (e, Ok)) es) s"
  by (simp add: deliver_all_append deliver_all_replay)

text \<open>
  Claim C6. For every tenant and every event, delivering the event \<open>n\<close> times, \<open>n\<close> at
  least 1, leaves the ledger and the processed keys exactly as one delivery does. Whatever
  the ledger answers to the attempts, the state after any number of deliveries of the event
  is the state before or the state after one successful delivery: the delta is applied at
  most once. An event whose key is already marked for that tenant and stream is discarded
  and nothing changes. The same holds for a whole stream: delivered \<open>n\<close> times over it
  leaves the state that one delivery leaves.
\<close>

theorem sync_event_applied_at_most_once:
  "(1 \<le> n \<longrightarrow> ((deliver tenant e Ok) ^^ n) s = deliver tenant e Ok s)
   \<and> (1 \<le> n \<longrightarrow> ledger (((deliver tenant e Ok) ^^ n) s) = ledger (deliver tenant e Ok s))
   \<and> (deliver_all tenant (map (\<lambda>a. (e, a)) answers) s = s
      \<or> deliver_all tenant (map (\<lambda>a. (e, a)) answers) s = deliver tenant e Ok s)
   \<and> ((tenant, event_stream e, event_id e) \<in> set (processed s) \<longrightarrow> deliver tenant e answer s = s)
   \<and> (1 \<le> n \<longrightarrow>
        deliver_all tenant (concat (replicate n (map (\<lambda>e. (e, Ok)) es))) s
          = deliver_all tenant (map (\<lambda>e. (e, Ok)) es) s)"
proof -
  have once: "1 \<le> n \<longrightarrow> ((deliver tenant e Ok) ^^ n) s = deliver tenant e Ok s"
  proof
    assume "1 \<le> n"
    then obtain m where "n = Suc m" by (cases n) simp_all
    then show "((deliver tenant e Ok) ^^ n) s = deliver tenant e Ok s"
      by (simp only: deliver_Ok_funpow)
  qed
  have stream: "1 \<le> n \<longrightarrow>
        deliver_all tenant (concat (replicate n (map (\<lambda>e. (e, Ok)) es))) s
          = deliver_all tenant (map (\<lambda>e. (e, Ok)) es) s"
  proof
    assume "1 \<le> n"
    then obtain m where "n = Suc m" by (cases n) simp_all
    then show "deliver_all tenant (concat (replicate n (map (\<lambda>e. (e, Ok)) es))) s
          = deliver_all tenant (map (\<lambda>e. (e, Ok)) es) s"
      by (simp only: deliver_all_duplicated)
  qed
  from once stream deliver_all_same_event [of tenant e answers s]
    deliver_processed [of tenant e s answer]
  show ?thesis by metis
qed

theorem sync_event_applied_at_most_once_witness:
  "(1::nat) \<le> 2
   \<and> ledger pantry (''t1'', ''milk'') = 10
   \<and> ledger (deliver ''t1'' milk_sale Ok pantry) (''t1'', ''milk'') = 7
   \<and> ledger (((deliver ''t1'' milk_sale Ok) ^^ 2) pantry) (''t1'', ''milk'') = 7
   \<and> ledger (deliver_all ''t1'' (concat (replicate 2 (map (\<lambda>e. (e, Ok)) [milk_sale]))) pantry)
        (''t1'', ''milk'') = 7
   \<and> (''t1'', event_stream milk_sale, event_id milk_sale)
        \<in> set (processed (deliver ''t1'' milk_sale Ok pantry))
   \<and> deliver ''t1'' milk_sale Ok (deliver ''t1'' milk_sale Ok pantry)
       = deliver ''t1'' milk_sale Ok pantry"
proof -
  have n: "(1::nat) \<le> 2" by simp
  have before: "ledger pantry (''t1'', ''milk'') = 10"
    by (simp add: pantry_def)
  have after: "ledger (deliver ''t1'' milk_sale Ok pantry) (''t1'', ''milk'') = 7"
    by (simp add: deliver_def Let_def pantry_def milk_sale_def)
  have marked: "(''t1'', event_stream milk_sale, event_id milk_sale)
        \<in> set (processed (deliver ''t1'' milk_sale Ok pantry))"
    by (simp add: deliver_def Let_def pantry_def milk_sale_def)
  have one: "deliver_all ''t1'' (map (\<lambda>e. (e, Ok)) [milk_sale]) pantry
               = deliver ''t1'' milk_sale Ok pantry"
    by simp
  note twice = sync_event_applied_at_most_once [of 2 "''t1''" milk_sale pantry "[]" Ok "[milk_sale]"]
  note again = sync_event_applied_at_most_once
    [of 2 "''t1''" milk_sale "deliver ''t1'' milk_sale Ok pantry" "[]" Ok "[milk_sale]"]
  from twice n have a: "((deliver ''t1'' milk_sale Ok) ^^ 2) pantry = deliver ''t1'' milk_sale Ok pantry"
    by blast
  from twice n
  have b: "deliver_all ''t1'' (concat (replicate 2 (map (\<lambda>e. (e, Ok)) [milk_sale]))) pantry
             = deliver_all ''t1'' (map (\<lambda>e. (e, Ok)) [milk_sale]) pantry"
    by blast
  from again marked
  have c: "deliver ''t1'' milk_sale Ok (deliver ''t1'' milk_sale Ok pantry)
             = deliver ''t1'' milk_sale Ok pantry"
    by blast
  from n before after marked c show ?thesis
    by (simp only: a b one)
qed

end
